theory Spec2Isabelle
  imports Main
begin

section \<open>JavaScript values\<close>

text \<open>
  The values the module handles. A JavaScript number is modelled as an integer or
  \<open>NaN\<close>: the only arithmetic of the module is on millisecond timestamps, which are
  integers far below \<open>2^53\<close>, where the arithmetic of doubles is exact. An object is the
  list of its own properties.
\<close>

datatype jsnum = Num int | NaN

datatype jsval =
    JUndefined
  | JNull
  | JBool bool
  | JNum jsnum
  | JStr string
  | JArr "jsval list"
  | JObj "(string \<times> jsval) list"

text \<open>The error object of a \<open>TypeError\<close> raised by the language itself.\<close>

definition TypeError :: "string \<Rightarrow> jsval" where
  "TypeError m = JObj [(''name'', JStr ''TypeError''), (''message'', JStr m), (''stack'', JStr [])]"

text \<open>\<open>ToBoolean\<close>: what \<open>if (v)\<close> and \<open>!v\<close> test.\<close>

fun truthy :: "jsval \<Rightarrow> bool" where
  "truthy JUndefined = False"
| "truthy JNull = False"
| "truthy (JBool b) = b"
| "truthy (JNum (Num n)) = (n \<noteq> 0)"
| "truthy (JNum NaN) = False"
| "truthy (JStr s) = (s \<noteq> [])"
| "truthy (JArr xs) = True"
| "truthy (JObj fs) = True"

text \<open>
  The property read \<open>v.k\<close>: a \<open>TypeError\<close> on \<open>undefined\<close> and \<open>null\<close>, the own
  property of an object, and \<open>undefined\<close> otherwise (none of the names this module
  reads, \<open>timestamp\<close>, \<open>data\<close>, \<open>userInfo\<close>, \<open>message\<close> and \<open>stack\<close>, is a property of
  a built-in prototype of a primitive or of an array).
\<close>

fun get_prop :: "jsval \<Rightarrow> string \<Rightarrow> jsval + jsval" where
  "get_prop JUndefined k = Inl (TypeError k)"
| "get_prop JNull k = Inl (TypeError k)"
| "get_prop (JObj fs) k = Inr (case map_of fs k of None \<Rightarrow> JUndefined | Some v \<Rightarrow> v)"
| "get_prop v k = Inr JUndefined"

text \<open>Subtraction and \<open><\<close> on numbers: \<open>NaN\<close> is absorbing, and never less than anything.\<close>

fun js_minus :: "jsnum \<Rightarrow> jsnum \<Rightarrow> jsnum" where
  "js_minus (Num a) (Num b) = Num (a - b)"
| "js_minus a b = NaN"

fun js_less :: "jsnum \<Rightarrow> jsnum \<Rightarrow> bool" where
  "js_less (Num a) (Num b) = (a < b)"
| "js_less a b = False"

section \<open>The host environment\<close>

text \<open>
  What the module does not own: the storage, fetch and console interfaces of the
  mini-program host (\<open>wx\<close>, \<open>console\<close>), the clock, and the built-ins \<open>JSON.parse\<close>,
  \<open>JSON.stringify\<close> and the conversion of strings and objects to numbers. They are
  parameters of the model. Every public call makes each storage call at most once and the
  fetch at most once, so one outcome per interface describes the host during one call:
  \<open>Some e\<close> means that the storage call throws \<open>e\<close>; the fetch resolves (\<open>Inr\<close>) or
  rejects (\<open>Inl\<close>, which for an awaited call inside \<open>try\<close> is also what a synchronous throw
  amounts to), after some time has passed.
\<close>

record host =
  getStorageSync_throws :: "jsval option"
  setStorageSync_throws :: "jsval option"
  removeStorageSync_throws :: "jsval option"
  getUserProfile_outcome :: "jsval + jsval"
  getUserProfile_duration :: int
  JSON_parse :: "string \<Rightarrow> jsval + jsval"
  JSON_stringify :: "jsval \<Rightarrow> jsval + string"
  StringToNumber :: "string \<Rightarrow> jsnum"
  ObjectToNumber :: "jsval \<Rightarrow> jsval + jsnum"

text \<open>
  The console is a list of entries: the channel, which of the module's messages it is,
  and the values printed after it.
\<close>

datatype channel = ConsoleLog | ConsoleWarn | ConsoleError

datatype message =
    FromCache
  | Fetched
  | FetchFailed
  | CacheExpired
  | ReadFailed
  | WriteFailed
  | Cleared
  | ClearFailed
  | ErrorReport

record state =
  storage :: "string \<rightharpoonup> string"
  clock :: int
  console :: "(channel \<times> message \<times> jsval list) list"
  fetch_calls :: nat

section \<open>Computations that may throw\<close>

text \<open>
  A computation takes the state and returns the new state with its outcome: \<open>Inr\<close> a
  value, \<open>Inl\<close> a thrown exception. For the \<open>async\<close> function \<open>getUserInfo\<close>, \<open>Inr v\<close> is a
  promise resolved with \<open>v\<close> and \<open>Inl e\<close> a promise rejected with \<open>e\<close>.
\<close>

type_synonym 'a js = "state \<Rightarrow> (jsval + 'a) \<times> state"

definition js_return :: "'a \<Rightarrow> 'a js" where
  "js_return x = (\<lambda>s. (Inr x, s))"

definition js_lift :: "jsval + 'a \<Rightarrow> 'a js" where
  "js_lift r = (\<lambda>s. (r, s))"

definition js_bind :: "'a js \<Rightarrow> ('a \<Rightarrow> 'b js) \<Rightarrow> 'b js" where
  "js_bind m f = (\<lambda>s. case m s of (Inl e, s') \<Rightarrow> (Inl e, s') | (Inr x, s') \<Rightarrow> f x s')"

definition try_catch :: "'a js \<Rightarrow> (jsval \<Rightarrow> 'a js) \<Rightarrow> 'a js" where
  "try_catch m handler = (\<lambda>s. case m s of (Inl e, s') \<Rightarrow> handler e s' | (Inr x, s') \<Rightarrow> (Inr x, s'))"

subsection \<open>The host's interfaces\<close>

definition wx_getStorageSync :: "host \<Rightarrow> string \<Rightarrow> string js" where
  "wx_getStorageSync h key = (\<lambda>s.
     case getStorageSync_throws h of
       Some e \<Rightarrow> (Inl e, s)
     | None \<Rightarrow> (Inr (case storage s key of None \<Rightarrow> [] | Some v \<Rightarrow> v), s))"

definition wx_setStorageSync :: "host \<Rightarrow> string \<Rightarrow> string \<Rightarrow> unit js" where
  "wx_setStorageSync h key v = (\<lambda>s.
     case setStorageSync_throws h of
       Some e \<Rightarrow> (Inl e, s)
     | None \<Rightarrow> (Inr (), s\<lparr>storage := (storage s)(key \<mapsto> v)\<rparr>))"

definition wx_removeStorageSync :: "host \<Rightarrow> string \<Rightarrow> unit js" where
  "wx_removeStorageSync h key = (\<lambda>s.
     case removeStorageSync_throws h of
       Some e \<Rightarrow> (Inl e, s)
     | None \<Rightarrow> (Inr (), s\<lparr>storage := (storage s)(key := None)\<rparr>))"

definition wx_getUserProfile :: "host \<Rightarrow> jsval js" where
  "wx_getUserProfile h = (\<lambda>s.
     (getUserProfile_outcome h,
      s\<lparr>fetch_calls := Suc (fetch_calls s), clock := clock s + getUserProfile_duration h\<rparr>))"

definition Date_now :: "int js" where
  "Date_now = (\<lambda>s. (Inr (clock s), s))"

definition console_out :: "channel \<Rightarrow> message \<Rightarrow> jsval list \<Rightarrow> unit js" where
  "console_out c m vs = (\<lambda>s. (Inr (), s\<lparr>console := console s @ [(c, m, vs)]\<rparr>))"

text \<open>\<open>ToNumber\<close>, which the subtraction applies to its right operand.\<close>

fun ToNumber :: "host \<Rightarrow> jsval \<Rightarrow> jsval + jsnum" where
  "ToNumber h JUndefined = Inr NaN"
| "ToNumber h JNull = Inr (Num 0)"
| "ToNumber h (JBool b) = Inr (Num (if b then 1 else 0))"
| "ToNumber h (JNum n) = Inr n"
| "ToNumber h (JStr s) = Inr (StringToNumber h s)"
| "ToNumber h v = ObjectToNumber h v"

section \<open>The class UserInfoManager\<close>

record UserInfoManager =
  CACHE_EXPIRE :: int
  cacheKey :: string

subsection \<open>The constructor and the exported instance\<close>

text \<open>
  Objects are addresses. The class state is the static property
  \<open>UserInfoManager.instance\<close>, the number of objects allocated so far, and the fields of
  the objects whose fields the constructor has set.
\<close>

record class_state =
  static_instance :: "nat option"
  allocated :: nat
  objects :: "nat \<rightharpoonup> UserInfoManager"

text \<open>
  The constructor body (lines 6 to 16), run on the fresh object \<open>this\<close>; it returns the
  object that the \<open>new\<close> expression evaluates to.
\<close>

definition constructor :: "nat \<Rightarrow> class_state \<Rightarrow> nat \<times> class_state" where
  "constructor this cs =
     (case static_instance cs of
        Some inst \<Rightarrow> (inst, cs)
      | None \<Rightarrow>
          (this,
           cs\<lparr>static_instance := Some this,
              objects := (objects cs)(this \<mapsto>
                \<lparr>CACHE_EXPIRE = 86400000, cacheKey = ''user_info_cache''\<rparr>)\<rparr>))"

definition new_UserInfoManager :: "class_state \<Rightarrow> nat \<times> class_state" where
  "new_UserInfoManager cs = constructor (allocated cs) (cs\<lparr>allocated := Suc (allocated cs)\<rparr>)"

text \<open>Loading the module: the class is declared, then line 115 runs.\<close>

definition class_declared :: class_state where
  "class_declared = \<lparr>static_instance = None, allocated = 0, objects = Map.empty\<rparr>"

definition module_load :: "nat \<times> class_state" where
  "module_load = new_UserInfoManager class_declared"

definition userInfoManager :: UserInfoManager where
  "userInfoManager = the (objects (snd module_load) (fst module_load))"

text \<open>The class states a program can reach after the module is loaded.\<close>

inductive reachable :: "class_state \<Rightarrow> bool" where
  loaded: "reachable (snd module_load)"
| new: "reachable cs \<Longrightarrow> reachable (snd (new_UserInfoManager cs))"

subsection \<open>The methods\<close>

text \<open>
  Each method takes the host of the call and the instance \<open>this\<close>. The storage holds
  strings, so \<open>!cacheStr\<close> is the test for the empty string, which is also what
  \<open>getStorageSync\<close> returns for a key that is not stored. \<open>forceRefresh\<close> is a boolean.
\<close>

text \<open>\<open>reportError\<close>, lines 108 to 111. The two property reads are not inside a \<open>try\<close>.\<close>

definition reportError :: "string \<Rightarrow> jsval \<Rightarrow> unit js" where
  "reportError action error =
     js_bind (js_lift (get_prop error ''message'')) (\<lambda>message.
     js_bind (js_lift (get_prop error ''stack'')) (\<lambda>stack.
     console_out ConsoleWarn ErrorReport
       [JObj [(''action'', JStr action), (''message'', message), (''stack'', stack)]]))"

text \<open>\<open>clearCachedUserInfo\<close>, lines 94 to 101.\<close>

definition clearCachedUserInfo :: "host \<Rightarrow> UserInfoManager \<Rightarrow> unit js" where
  "clearCachedUserInfo h this =
     try_catch
       (js_bind (wx_removeStorageSync h (cacheKey this)) (\<lambda>_.
        console_out ConsoleLog Cleared []))
       (\<lambda>error. console_out ConsoleError ClearFailed [error])"

text \<open>\<open>setCachedUserInfo\<close>, lines 79 to 89.\<close>

definition setCachedUserInfo :: "host \<Rightarrow> UserInfoManager \<Rightarrow> jsval \<Rightarrow> unit js" where
  "setCachedUserInfo h this userInfo =
     try_catch
       (js_bind Date_now (\<lambda>now.
        js_bind (js_lift (JSON_stringify h
                   (JObj [(''data'', userInfo), (''timestamp'', JNum (Num now))]))) (\<lambda>serialized.
        wx_setStorageSync h (cacheKey this) serialized)))
       (\<lambda>error. console_out ConsoleError WriteFailed [error])"

text \<open>\<open>getCachedUserInfo\<close>, lines 55 to 73.\<close>

definition getCachedUserInfo :: "host \<Rightarrow> UserInfoManager \<Rightarrow> jsval js" where
  "getCachedUserInfo h this =
     try_catch
       (js_bind (wx_getStorageSync h (cacheKey this)) (\<lambda>cacheStr.
        if cacheStr = [] then js_return JNull
        else
          js_bind (js_lift (JSON_parse h cacheStr)) (\<lambda>cache.
          js_bind Date_now (\<lambda>now.
          js_bind (js_lift (get_prop cache ''timestamp'')) (\<lambda>timestamp.
          js_bind (js_lift (ToNumber h timestamp)) (\<lambda>written.
            if js_less (js_minus (Num now) written) (Num (CACHE_EXPIRE this)) then
              js_lift (get_prop cache ''data'')
            else
              js_bind (console_out ConsoleLog CacheExpired []) (\<lambda>_.
              js_bind (clearCachedUserInfo h this) (\<lambda>_.
              js_return JNull))))))))
       (\<lambda>error.
          js_bind (console_out ConsoleError ReadFailed [error]) (\<lambda>_.
          js_return JNull))"

text \<open>
  Lines 34 to 48 of \<open>getUserInfo\<close>: the fetch, inside its \<open>try\<close>, and the \<open>catch\<close>
  block, whose call of \<open>reportError\<close> nothing guards.
\<close>

definition fetchUserInfo :: "host \<Rightarrow> UserInfoManager \<Rightarrow> jsval js" where
  "fetchUserInfo h this =
     try_catch
       (js_bind (wx_getUserProfile h) (\<lambda>res.
        js_bind (js_lift (get_prop res ''userInfo'')) (\<lambda>userInfo.
        js_bind (setCachedUserInfo h this userInfo) (\<lambda>_.
        js_bind (js_lift (get_prop res ''userInfo'')) (\<lambda>userInfo.
        js_bind (console_out ConsoleLog Fetched [userInfo]) (\<lambda>_.
        js_lift (get_prop res ''userInfo'')))))))
       (\<lambda>error.
          js_bind (console_out ConsoleError FetchFailed [error]) (\<lambda>_.
          js_bind (reportError ''getUserInfo'' error) (\<lambda>_.
          js_return JNull)))"

text \<open>\<open>getUserInfo\<close>, lines 23 to 49.\<close>

definition getUserInfo :: "host \<Rightarrow> UserInfoManager \<Rightarrow> bool \<Rightarrow> jsval js" where
  "getUserInfo h this forceRefresh =
     (if \<not> forceRefresh then
        js_bind (getCachedUserInfo h this) (\<lambda>cachedInfo.
          if truthy cachedInfo then
            js_bind (console_out ConsoleLog FromCache [cachedInfo]) (\<lambda>_.
            js_return cachedInfo)
          else fetchUserInfo h this)
      else fetchUserInfo h this)"

section \<open>Stored records\<close>

text \<open>
  The stored string \<open>str\<close> is a record of the profile \<open>P\<close> written at time \<open>T\<close>: it is
  not empty, \<open>JSON.parse\<close> accepts it, and the parsed value has \<open>P\<close> as its \<open>data\<close> and
  \<open>T\<close> as its \<open>timestamp\<close>.
\<close>

definition holds_record :: "host \<Rightarrow> string \<Rightarrow> jsval \<Rightarrow> int \<Rightarrow> bool" where
  "holds_record h str P T =
     (str \<noteq> [] \<and>
      (case JSON_parse h str of
         Inl e \<Rightarrow> False
       | Inr cache \<Rightarrow>
           get_prop cache ''timestamp'' = Inr (JNum (Num T)) \<and>
           get_prop cache ''data'' = Inr P))"

text \<open>
  A read of the cache detects an expired record: the storage read succeeds with a
  non-empty string that parses, and the age test of line 62 fails.
\<close>

definition detects_expiry :: "host \<Rightarrow> UserInfoManager \<Rightarrow> state \<Rightarrow> bool" where
  "detects_expiry h this s =
     (case getStorageSync_throws h of
        Some e \<Rightarrow> False
      | None \<Rightarrow>
          (case storage s (cacheKey this) of
             None \<Rightarrow> False
           | Some str \<Rightarrow>
               str \<noteq> [] \<and>
               (case JSON_parse h str of
                  Inl e \<Rightarrow> False
                | Inr cache \<Rightarrow>
                    (case get_prop cache ''timestamp'' of
                       Inl e \<Rightarrow> False
                     | Inr timestamp \<Rightarrow>
                         (case ToNumber h timestamp of
                            Inl e \<Rightarrow> False
                          | Inr written \<Rightarrow>
                              \<not> js_less (js_minus (Num (clock s)) written)
                                  (Num (CACHE_EXPIRE this)))))))"

text \<open>
  The scenario of the round-trip properties: the exported instance writes \<open>P\<close> in state
  \<open>s\<close> (so at time \<open>clock s\<close>), and reads the cache back when the clock shows \<open>T'\<close>.
\<close>

definition read_after_write ::
  "host \<Rightarrow> host \<Rightarrow> jsval \<Rightarrow> state \<Rightarrow> int \<Rightarrow> (jsval + jsval) \<times> state" where
  "read_after_write h h' P s T' =
     getCachedUserInfo h' userInfoManager
       ((snd (setCachedUserInfo h userInfoManager P s))\<lparr>clock := T'\<rparr>)"

section \<open>An example host\<close>

text \<open>
  A host for the concrete runs: storage that never throws, a fetch that resolves at once
  with the profile \<open>{name: "A"}\<close>, and \<open>JSON.parse\<close> and \<open>JSON.stringify\<close> given by a table
  of documents (every other string is a syntax error).
\<close>

definition profile_A :: jsval where
  "profile_A = JObj [(''name'', JStr ''A'')]"

definition SyntaxError :: jsval where
  "SyntaxError =
     JObj [(''name'', JStr ''SyntaxError''), (''message'', JStr ''Unexpected token''),
           (''stack'', JStr [])]"

definition auth_deny :: jsval where
  "auth_deny = JObj [(''errMsg'', JStr ''getUserProfile:fail auth deny'')]"

definition stored_A :: string where
  \<open>stored_A = ''{"data":{"name":"A"},"timestamp":0}''\<close>

definition stored_A_500 :: string where
  \<open>stored_A_500 = ''{"data":{"name":"A"},"timestamp":500}''\<close>

definition documents :: "(string \<times> jsval) list" where
  \<open>documents =
     [(stored_A,
         JObj [(''data'', profile_A), (''timestamp'', JNum (Num 0))]),
      (stored_A_500,
         JObj [(''data'', profile_A), (''timestamp'', JNum (Num 500))]),
      (''{"data":null,"timestamp":0}'',
         JObj [(''data'', JNull), (''timestamp'', JNum (Num 0))]),
      (''{"data":0,"timestamp":0}'',
         JObj [(''data'', JNum (Num 0)), (''timestamp'', JNum (Num 0))]),
      (''{"data":"","timestamp":0}'',
         JObj [(''data'', JStr []), (''timestamp'', JNum (Num 0))]),
      (''{"data":false,"timestamp":0}'',
         JObj [(''data'', JBool False), (''timestamp'', JNum (Num 0))]),
      (''{"timestamp":0}'',
         JObj [(''timestamp'', JNum (Num 0))])]\<close>

definition example_host :: host where
  "example_host =
     \<lparr>getStorageSync_throws = None,
      setStorageSync_throws = None,
      removeStorageSync_throws = None,
      getUserProfile_outcome = Inr (JObj [(''userInfo'', profile_A)]),
      getUserProfile_duration = 0,
      JSON_parse = (\<lambda>t. case map_of documents t of Some v \<Rightarrow> Inr v | None \<Rightarrow> Inl SyntaxError),
      JSON_stringify = (\<lambda>v. case find (\<lambda>d. snd d = v) documents of
                               Some d \<Rightarrow> Inr (fst d)
                             | None \<Rightarrow> Inl (TypeError ''stringify'')),
      StringToNumber = (\<lambda>t. NaN),
      ObjectToNumber = (\<lambda>v. Inr NaN)\<rparr>"

definition fresh_state :: state where
  "fresh_state = \<lparr>storage = Map.empty, clock = 0, console = [], fetch_calls = 0\<rparr>"

definition state_with :: "string \<Rightarrow> int \<Rightarrow> state" where
  "state_with str t = fresh_state\<lparr>storage := [''user_info_cache'' \<mapsto> str], clock := t\<rparr>"

section \<open>Running the methods\<close>

lemmas js_defs = js_return_def js_lift_def js_bind_def try_catch_def
  wx_getStorageSync_def wx_setStorageSync_def wx_removeStorageSync_def
  wx_getUserProfile_def Date_now_def console_out_def

lemmas example_defs = example_host_def fresh_state_def documents_def profile_A_def
  stored_A_def stored_A_500_def state_with_def SyntaxError_def auth_deny_def

subsection \<open>The constructor\<close>

lemma module_load_eq:
  "module_load =
     (0, \<lparr>static_instance = Some 0, allocated = 1,
          objects = [0 \<mapsto> \<lparr>CACHE_EXPIRE = 86400000, cacheKey = ''user_info_cache''\<rparr>]\<rparr>)"
  by (simp add: module_load_def new_UserInfoManager_def constructor_def class_declared_def)

lemma userInfoManager_eq:
  "userInfoManager = \<lparr>CACHE_EXPIRE = 86400000, cacheKey = ''user_info_cache''\<rparr>"
  by (simp add: userInfoManager_def module_load_eq)

lemma new_keeps_instance:
  "static_instance cs = Some a \<Longrightarrow> new_UserInfoManager cs = (a, cs\<lparr>allocated := Suc (allocated cs)\<rparr>)"
  by (simp add: new_UserInfoManager_def constructor_def)

lemma reachable_instance:
  "reachable cs \<Longrightarrow>
     static_instance cs = Some (fst module_load) \<and>
     objects cs (fst module_load) = Some userInfoManager"
proof (induction rule: reachable.induct)
  case loaded
  show ?case by (simp add: module_load_eq userInfoManager_eq)
next
  case (new cs)
  then show ?case by (simp add: new_keeps_instance)
qed

subsection \<open>Writing and evicting\<close>

lemma clearCachedUserInfo_run:
  "clearCachedUserInfo h this s =
     (Inr (),
      case removeStorageSync_throws h of
        None \<Rightarrow> s\<lparr>storage := (storage s)(cacheKey this := None),
                  console := console s @ [(ConsoleLog, Cleared, [])]\<rparr>
      | Some e \<Rightarrow> s\<lparr>console := console s @ [(ConsoleError, ClearFailed, [e])]\<rparr>)"
  by (simp add: clearCachedUserInfo_def js_defs split: option.splits)

lemma setCachedUserInfo_run:
  "setCachedUserInfo h this userInfo s =
     (Inr (),
      case JSON_stringify h (JObj [(''data'', userInfo), (''timestamp'', JNum (Num (clock s)))]) of
        Inl e \<Rightarrow> s\<lparr>console := console s @ [(ConsoleError, WriteFailed, [e])]\<rparr>
      | Inr str \<Rightarrow>
          (case setStorageSync_throws h of
             Some e \<Rightarrow> s\<lparr>console := console s @ [(ConsoleError, WriteFailed, [e])]\<rparr>
           | None \<Rightarrow> s\<lparr>storage := (storage s)(cacheKey this \<mapsto> str)\<rparr>))"
  by (simp add: setCachedUserInfo_def js_defs split: option.splits sum.splits)

subsection \<open>Reading the cache\<close>

lemma getCachedUserInfo_read_throws:
  "getStorageSync_throws h = Some e \<Longrightarrow>
   getCachedUserInfo h this s =
     (Inr JNull, s\<lparr>console := console s @ [(ConsoleError, ReadFailed, [e])]\<rparr>)"
  by (simp add: getCachedUserInfo_def js_defs)

lemma getCachedUserInfo_absent:
  "getStorageSync_throws h = None \<Longrightarrow>
   storage s (cacheKey this) = None \<or> storage s (cacheKey this) = Some [] \<Longrightarrow>
   getCachedUserInfo h this s = (Inr JNull, s)"
  by (auto simp add: getCachedUserInfo_def js_defs)

lemma getCachedUserInfo_record:
  "getStorageSync_throws h = None \<Longrightarrow> storage s (cacheKey this) = Some str \<Longrightarrow>
   holds_record h str P T \<Longrightarrow>
   getCachedUserInfo h this s =
     (if clock s - T < CACHE_EXPIRE this then (Inr P, s)
      else (Inr JNull, snd (clearCachedUserInfo h this
              (s\<lparr>console := console s @ [(ConsoleLog, CacheExpired, [])]\<rparr>))))"
  by (auto simp add: getCachedUserInfo_def js_defs holds_record_def clearCachedUserInfo_run
      split: sum.splits)

lemma getCachedUserInfo_total: "\<exists>v. fst (getCachedUserInfo h this s) = Inr v"
  by (auto simp add: getCachedUserInfo_def js_defs clearCachedUserInfo_run
      split: sum.splits option.splits prod.splits)

lemma getCachedUserInfo_hit:
  "fst (getCachedUserInfo h this s) = Inr v \<Longrightarrow> truthy v \<Longrightarrow>
   snd (getCachedUserInfo h this s) = s"
  by (auto simp add: getCachedUserInfo_def js_defs clearCachedUserInfo_run
      split: sum.splits option.splits prod.splits if_splits)

lemma getCachedUserInfo_storage_eq:
  "storage (snd (getCachedUserInfo h this s)) =
     (if detects_expiry h this s \<and> removeStorageSync_throws h = None
      then (storage s)(cacheKey this := None) else storage s)"
proof (cases "getStorageSync_throws h")
  case (Some e)
  then show ?thesis
    by (simp add: getCachedUserInfo_read_throws detects_expiry_def)
next
  case None
  show ?thesis
  proof (cases "storage s (cacheKey this)")
    case absent: None
    with None show ?thesis
      by (simp add: getCachedUserInfo_absent detects_expiry_def)
  next
    case (Some str)
    show ?thesis
    proof (cases "str = []")
      case True
      with None Some show ?thesis
        by (simp add: getCachedUserInfo_absent detects_expiry_def)
    next
      case False
      with None Some show ?thesis
        by (simp add: getCachedUserInfo_def js_defs clearCachedUserInfo_run detects_expiry_def
            split: sum.splits option.splits)
    qed
  qed
qed

subsection \<open>Fetching\<close>

lemma get_prop_total:
  "v \<noteq> JUndefined \<Longrightarrow> v \<noteq> JNull \<Longrightarrow> \<exists>x. get_prop v k = Inr x"
  by (cases v) simp_all

lemma get_prop_throws:
  "get_prop v k = Inl e \<Longrightarrow> (v = JUndefined \<or> v = JNull) \<and> e = TypeError k"
  by (cases v) simp_all

lemma fetchUserInfo_calls:
  "fetch_calls (snd (fetchUserInfo h this s)) = Suc (fetch_calls s)"
  by (auto simp add: fetchUserInfo_def reportError_def js_defs setCachedUserInfo_run
      split: sum.splits option.splits prod.splits)

lemma fetchUserInfo_value:
  "fst (fetchUserInfo h this s) = fst (fetchUserInfo h this s')"
  by (auto simp add: fetchUserInfo_def reportError_def js_defs setCachedUserInfo_run
      split: sum.splits option.splits prod.splits)

lemma fetchUserInfo_storage:
  "storage (snd (fetchUserInfo h this s)) = storage s \<or>
   (setStorageSync_throws h = None \<and> (\<exists>res. getUserProfile_outcome h = Inr res) \<and>
    (\<exists>str. storage (snd (fetchUserInfo h this s)) = (storage s)(cacheKey this \<mapsto> str)))"
  by (auto simp add: fetchUserInfo_def reportError_def js_defs setCachedUserInfo_run
      split: sum.splits option.splits prod.splits)

lemma fetchUserInfo_rejected:
  "getUserProfile_outcome h = Inl e \<Longrightarrow>
   get_prop e ''message'' = Inr m \<Longrightarrow> get_prop e ''stack'' = Inr st \<Longrightarrow>
   fetchUserInfo h this s =
     (Inr JNull,
      s\<lparr>fetch_calls := Suc (fetch_calls s),
        clock := clock s + getUserProfile_duration h,
        console := console s @
          [(ConsoleError, FetchFailed, [e]),
           (ConsoleWarn, ErrorReport,
            [JObj [(''action'', JStr ''getUserInfo''), (''message'', m), (''stack'', st)]])]\<rparr>)"
  by (simp add: fetchUserInfo_def reportError_def js_defs)

lemma fetchUserInfo_nullish:
  "getUserProfile_outcome h = Inl e \<Longrightarrow> e = JUndefined \<or> e = JNull \<Longrightarrow>
   fetchUserInfo h this s =
     (Inl (TypeError ''message''),
      s\<lparr>fetch_calls := Suc (fetch_calls s),
        clock := clock s + getUserProfile_duration h,
        console := console s @ [(ConsoleError, FetchFailed, [e])]\<rparr>)"
  by (auto simp add: fetchUserInfo_def reportError_def js_defs)

lemma fetchUserInfo_resolved:
  "getUserProfile_outcome h = Inr res \<Longrightarrow> get_prop res ''userInfo'' = Inr P \<Longrightarrow>
   fetchUserInfo h this s =
     (Inr P,
      (snd (setCachedUserInfo h this P
         (s\<lparr>fetch_calls := Suc (fetch_calls s),
            clock := clock s + getUserProfile_duration h\<rparr>)))
      \<lparr>console :=
         console (snd (setCachedUserInfo h this P
           (s\<lparr>fetch_calls := Suc (fetch_calls s),
              clock := clock s + getUserProfile_duration h\<rparr>))) @
         [(ConsoleLog, Fetched, [P])]\<rparr>)"
  by (simp add: fetchUserInfo_def js_defs setCachedUserInfo_run split: sum.splits option.splits)

text \<open>
  The fetch of lines 34 to 48 lets an exception escape exactly when the fetch rejects with
  \<open>undefined\<close> or \<open>null\<close>: \<open>reportError\<close> then reads \<open>error.message\<close> inside the \<open>catch\<close>
  block.
\<close>

lemma fetchUserInfo_throws_iff:
  "(\<exists>e. fst (fetchUserInfo h this s) = Inl e) \<longleftrightarrow>
   (getUserProfile_outcome h = Inl JUndefined \<or> getUserProfile_outcome h = Inl JNull)"
proof (cases "getUserProfile_outcome h")
  case (Inl e)
  show ?thesis
  proof (cases "e = JUndefined \<or> e = JNull")
    case True
    with Inl show ?thesis using fetchUserInfo_nullish [OF Inl True, of this s] by auto
  next
    case False
    then obtain m st where "get_prop e ''message'' = Inr m" "get_prop e ''stack'' = Inr st"
      using get_prop_total [of e] by blast
    with Inl False show ?thesis using fetchUserInfo_rejected [OF Inl, of m st this s] by auto
  qed
next
  case (Inr res)
  show ?thesis
  proof (cases "get_prop res ''userInfo''")
    case (Inl e)
    with Inr show ?thesis
      using get_prop_throws [OF Inl]
      by (auto simp add: fetchUserInfo_def reportError_def js_defs TypeError_def)
  next
    case (Inr P)
    with \<open>getUserProfile_outcome h = Inr res\<close> show ?thesis
      by (simp add: fetchUserInfo_resolved)
  qed
qed

subsection \<open>The public entry point\<close>

lemma getUserInfo_forced: "getUserInfo h this True s = fetchUserInfo h this s"
  by (simp add: getUserInfo_def)

lemma getUserInfo_unforced:
  "fst (getCachedUserInfo h this s) = Inr v \<Longrightarrow>
   getUserInfo h this False s =
     (if truthy v
      then (Inr v, (snd (getCachedUserInfo h this s))
                     \<lparr>console := console (snd (getCachedUserInfo h this s)) @
                        [(ConsoleLog, FromCache, [v])]\<rparr>)
      else fetchUserInfo h this (snd (getCachedUserInfo h this s)))"
  by (cases "getCachedUserInfo h this s") (simp add: getUserInfo_def js_defs)

lemma getUserInfo_throws_iff:
  "(\<exists>e. fst (getUserInfo h this forceRefresh s) = Inl e) \<longleftrightarrow>
   (forceRefresh \<or> \<not> (\<exists>v. fst (getCachedUserInfo h this s) = Inr v \<and> truthy v)) \<and>
   (getUserProfile_outcome h = Inl JUndefined \<or> getUserProfile_outcome h = Inl JNull)"
proof (cases forceRefresh)
  case True
  then show ?thesis by (simp add: getUserInfo_forced fetchUserInfo_throws_iff)
next
  case False
  obtain v where v: "fst (getCachedUserInfo h this s) = Inr v"
    using getCachedUserInfo_total by blast
  show ?thesis
    using False v fetchUserInfo_throws_iff [of h this "snd (getCachedUserInfo h this s)"]
    by (simp add: getUserInfo_unforced [OF v])
qed

section \<open>The claims\<close>

subsection \<open>C1: round trip within the expiry time\<close>

text \<open>
  Claim C1. A profile \<open>P\<close> written by \<open>setCachedUserInfo\<close> at time \<open>T\<close> is returned
  unchanged by \<open>getCachedUserInfo\<close> at every time \<open>T'\<close> with \<open>T' - T < 86400000\<close>. The
  write is one that reaches the storage (\<open>JSON.stringify\<close> and \<open>setStorageSync\<close> do not
  throw), the read is one whose \<open>getStorageSync\<close> does not throw, and \<open>JSON.parse\<close> gives
  back the data and the timestamp that \<open>JSON.stringify\<close> serialized.
\<close>

theorem roundtrip_within_ttl:
  assumes "JSON_stringify h (JObj [(''data'', P), (''timestamp'', JNum (Num (clock s)))]) = Inr str"
    and "setStorageSync_throws h = None"
    and "getStorageSync_throws h' = None"
    and "holds_record h' str P (clock s)"
    and "T' - clock s < 86400000"
  shows "fst (read_after_write h h' P s T') = Inr P"
proof -
  let ?written = "(snd (setCachedUserInfo h userInfoManager P s))\<lparr>clock := T'\<rparr>"
  have stored: "storage ?written (cacheKey userInfoManager) = Some str"
    using assms(1,2) by (simp add: setCachedUserInfo_run)
  have "clock ?written - clock s < CACHE_EXPIRE userInfoManager"
    using assms(5) by (simp add: userInfoManager_eq)
  then show ?thesis
    using getCachedUserInfo_record [OF assms(3) stored assms(4)]
    by (simp add: read_after_write_def)
qed

theorem roundtrip_within_ttl_witness:
  "fst (read_after_write example_host example_host profile_A fresh_state 500) = Inr profile_A"
  using roundtrip_within_ttl [of example_host profile_A fresh_state stored_A example_host 500]
  by (simp add: example_defs holds_record_def)

subsection \<open>C2: eviction on expiry\<close>

text \<open>
  Claim C2. A profile written at time \<open>T\<close> and read at a time \<open>T'\<close> with
  \<open>T' - T \<ge> 86400000\<close> is reported absent (\<open>null\<close>), and after that read the storage holds
  nothing under the cache key; the boundary is strict: the record is still stored after
  the read exactly when \<open>T' - T < 86400000\<close>. The write and the read are as in C1, and
  \<open>removeStorageSync\<close> does not throw.
\<close>

theorem eviction_on_expiry:
  assumes "JSON_stringify h (JObj [(''data'', P), (''timestamp'', JNum (Num (clock s)))]) = Inr str"
    and "setStorageSync_throws h = None"
    and "getStorageSync_throws h' = None"
    and "holds_record h' str P (clock s)"
    and "removeStorageSync_throws h' = None"
  shows "(86400000 \<le> T' - clock s \<longrightarrow>
            fst (read_after_write h h' P s T') = Inr JNull \<and>
            storage (snd (read_after_write h h' P s T')) ''user_info_cache'' = None) \<and>
         (storage (snd (read_after_write h h' P s T')) ''user_info_cache'' = Some str \<longleftrightarrow>
            T' - clock s < 86400000)"
proof -
  let ?written = "(snd (setCachedUserInfo h userInfoManager P s))\<lparr>clock := T'\<rparr>"
  have stored: "storage ?written (cacheKey userInfoManager) = Some str"
    using assms(1,2) by (simp add: setCachedUserInfo_run)
  show ?thesis
    using getCachedUserInfo_record [OF assms(3) stored assms(4)] stored assms(5)
    by (simp add: read_after_write_def userInfoManager_eq clearCachedUserInfo_run)
qed

theorem eviction_on_expiry_witness:
  "fst (read_after_write example_host example_host profile_A fresh_state 86400000) = Inr JNull \<and>
   storage (snd (read_after_write example_host example_host profile_A fresh_state 86400000))
     ''user_info_cache'' = None \<and>
   storage (snd (read_after_write example_host example_host profile_A fresh_state 86399999))
     ''user_info_cache'' = Some stored_A"
proof -
  have hyps:
    "JSON_stringify example_host
       (JObj [(''data'', profile_A), (''timestamp'', JNum (Num (clock fresh_state)))]) = Inr stored_A"
    "setStorageSync_throws example_host = None"
    "getStorageSync_throws example_host = None"
    "holds_record example_host stored_A profile_A (clock fresh_state)"
    "removeStorageSync_throws example_host = None"
    by (simp_all add: example_defs holds_record_def)
  have late: "(86400000::int) \<le> 86400000 - clock fresh_state"
    and early: "86399999 - clock fresh_state < (86400000::int)"
    by (simp_all add: fresh_state_def)
  from eviction_on_expiry [OF hyps, of 86400000] late
  have "fst (read_after_write example_host example_host profile_A fresh_state 86400000) = Inr JNull \<and>
     storage (snd (read_after_write example_host example_host profile_A fresh_state 86400000))
       ''user_info_cache'' = None"
    by blast
  moreover from eviction_on_expiry [OF hyps, of 86399999] early
  have "storage (snd (read_after_write example_host example_host profile_A fresh_state 86399999))
     ''user_info_cache'' = Some stored_A"
    by blast
  ultimately show ?thesis by blast
qed

subsection \<open>C3: absorption of failures\<close>

text \<open>
  Claim C3. Whatever the storage and the fetch do, \<open>getUserInfo\<close> lets no exception
  escape: it resolves to a profile or to \<open>null\<close>. The code misses one case. When the fetch
  rejects (or throws) with \<open>undefined\<close> or \<open>null\<close>, the \<open>catch\<close> block of line 43 calls
  \<open>reportError\<close>, which reads \<open>error.message\<close>; that read throws a \<open>TypeError\<close> outside
  any \<open>try\<close>, and the promise of \<open>getUserInfo\<close> is rejected with it, with and without a
  forced refresh. By \<open>getUserInfo_throws_iff\<close> this is the only way an exception escapes.
\<close>

theorem nullish_rejection_escapes:
  "fst (getUserInfo (example_host\<lparr>getUserProfile_outcome := Inl JUndefined\<rparr>)
          userInfoManager False fresh_state) = Inl (TypeError ''message'') \<and>
   fst (getUserInfo (example_host\<lparr>getUserProfile_outcome := Inl JNull\<rparr>)
          userInfoManager True fresh_state) = Inl (TypeError ''message'')"
proof -
  have "fst (getCachedUserInfo (example_host\<lparr>getUserProfile_outcome := Inl JUndefined\<rparr>)
          userInfoManager fresh_state) = Inr JNull"
    by (simp add: getCachedUserInfo_absent example_host_def fresh_state_def)
  from getUserInfo_unforced [OF this] show ?thesis
    by (simp add: getUserInfo_forced fetchUserInfo_nullish)
qed

subsection \<open>C4: a failed fetch writes nothing\<close>

text \<open>
  Against claim C4 as stated: the stored record is not always left as it was when the
  fetch fails. With an expired record in the storage and no forced refresh, the cache read
  of line 26 evicts the record before the fetch is tried; the fetch then rejects,
  \<open>getUserInfo\<close> resolves to \<open>null\<close>, and the storage is empty.
\<close>

theorem fetch_failure_evicts_counterexample:
  "getUserProfile_outcome (example_host\<lparr>getUserProfile_outcome := Inl auth_deny\<rparr>) = Inl auth_deny \<and>
   storage (state_with stored_A 86400001) ''user_info_cache'' = Some stored_A \<and>
   fst (getUserInfo (example_host\<lparr>getUserProfile_outcome := Inl auth_deny\<rparr>) userInfoManager False
     (state_with stored_A 86400001)) = Inr JNull \<and>
   storage (snd (getUserInfo (example_host\<lparr>getUserProfile_outcome := Inl auth_deny\<rparr>)
     userInfoManager False (state_with stored_A 86400001))) ''user_info_cache'' = None \<and>
   fetch_calls (snd (getUserInfo (example_host\<lparr>getUserProfile_outcome := Inl auth_deny\<rparr>)
     userInfoManager False (state_with stored_A 86400001))) = 1"
  by (simp add: getUserInfo_def fetchUserInfo_def reportError_def getCachedUserInfo_def
      clearCachedUserInfo_def js_defs example_defs userInfoManager_eq)

text \<open>
  Claim C4, amended. Whenever the fetch is invoked and rejects or throws with an error
  whose \<open>message\<close> and \<open>stack\<close> can be read (any value but \<open>undefined\<close> and \<open>null\<close>),
  \<open>getUserInfo\<close> resolves to \<open>null\<close>, the error is logged and reported to the console, and
  no record is written: the storage is left as the cache read of line 26 left it, which
  is as it was before the call, but for an expired record that this read has evicted
  (never under a forced refresh, where the cache is not read).
\<close>

theorem fetch_failure_writes_nothing:
  assumes "getUserProfile_outcome h = Inl e"
    and "get_prop e ''message'' = Inr m"
    and "get_prop e ''stack'' = Inr st"
    and "fst (getCachedUserInfo h this s) = Inr v"
    and "forceRefresh \<or> \<not> truthy v"
    and "pre = (if forceRefresh then s else snd (getCachedUserInfo h this s))"
  shows "fst (getUserInfo h this forceRefresh s) = Inr JNull \<and>
         console (snd (getUserInfo h this forceRefresh s)) =
           console pre @
             [(ConsoleError, FetchFailed, [e]),
              (ConsoleWarn, ErrorReport,
               [JObj [(''action'', JStr ''getUserInfo''), (''message'', m), (''stack'', st)]])] \<and>
         storage (snd (getUserInfo h this forceRefresh s)) = storage pre \<and>
         storage pre =
           (if \<not> forceRefresh \<and> detects_expiry h this s \<and> removeStorageSync_throws h = None
            then (storage s)(cacheKey this := None) else storage s)"
proof -
  have "getUserInfo h this forceRefresh s = fetchUserInfo h this pre"
    using assms(5,6)
    by (cases forceRefresh) (simp_all add: getUserInfo_forced getUserInfo_unforced [OF assms(4)])
  then show ?thesis
    by (simp add: fetchUserInfo_rejected [OF assms(1,2,3)] assms(6) getCachedUserInfo_storage_eq)
qed

theorem fetch_failure_writes_nothing_witness:
  "getUserInfo (example_host\<lparr>getUserProfile_outcome := Inl auth_deny\<rparr>) userInfoManager True
     (state_with stored_A 500) =
   (Inr JNull,
    (state_with stored_A 500)
      \<lparr>console :=
         [(ConsoleError, FetchFailed, [auth_deny]),
          (ConsoleWarn, ErrorReport,
           [JObj [(''action'', JStr ''getUserInfo''), (''message'', JUndefined),
                  (''stack'', JUndefined)]])],
       fetch_calls := 1\<rparr>)"
proof -
  let ?h = "example_host\<lparr>getUserProfile_outcome := Inl auth_deny\<rparr>"
  have cached: "fst (getCachedUserInfo ?h userInfoManager (state_with stored_A 500)) = Inr profile_A"
    by (simp add: getCachedUserInfo_def js_defs userInfoManager_eq example_defs)
  have "fst (getUserInfo ?h userInfoManager True (state_with stored_A 500)) = Inr JNull \<and>
        console (snd (getUserInfo ?h userInfoManager True (state_with stored_A 500))) =
          [(ConsoleError, FetchFailed, [auth_deny]),
           (ConsoleWarn, ErrorReport,
            [JObj [(''action'', JStr ''getUserInfo''), (''message'', JUndefined),
                   (''stack'', JUndefined)]])] \<and>
        storage (snd (getUserInfo ?h userInfoManager True (state_with stored_A 500))) =
          storage (state_with stored_A 500)"
    using fetch_failure_writes_nothing [of ?h auth_deny JUndefined JUndefined userInfoManager
        "state_with stored_A 500" profile_A True "state_with stored_A 500"] cached
    by (simp add: example_defs)
  then show ?thesis
    by (simp add: getUserInfo_forced fetchUserInfo_def reportError_def js_defs example_defs)
qed

subsection \<open>C5: forced refresh\<close>

text \<open>
  Claim C5. In every cache state, \<open>getUserInfo(true)\<close> invokes the fetch, and what it
  returns does not depend on what the storage holds; when the fetch resolves with a
  profile and the write goes through (\<open>JSON.stringify\<close> and \<open>setStorageSync\<close> do not
  throw), it returns the fetched profile and the stored record is replaced by the
  serialized profile with the time after the fetch as its timestamp.
\<close>

theorem force_refresh_bypass:
  "fetch_calls (snd (getUserInfo h this True s)) = Suc (fetch_calls s) \<and>
   fst (getUserInfo h this True (s\<lparr>storage := cached\<rparr>)) = fst (getUserInfo h this True s) \<and>
   (getUserProfile_outcome h = Inr res \<and> get_prop res ''userInfo'' = Inr P \<and>
    JSON_stringify h (JObj [(''data'', P),
      (''timestamp'', JNum (Num (clock s + getUserProfile_duration h)))]) = Inr str \<and>
    setStorageSync_throws h = None \<longrightarrow>
      fst (getUserInfo h this True s) = Inr P \<and>
      storage (snd (getUserInfo h this True s)) = (storage s)(cacheKey this \<mapsto> str))"
  using fetchUserInfo_value [of h this "s\<lparr>storage := cached\<rparr>" s]
  by (simp add: getUserInfo_forced fetchUserInfo_calls fetchUserInfo_resolved setCachedUserInfo_run)

theorem force_refresh_bypass_witness:
  "fetch_calls (snd (getUserInfo example_host userInfoManager True (state_with stored_A 500))) = 1 \<and>
   fst (getUserInfo example_host userInfoManager True (state_with stored_A 500)) = Inr profile_A \<and>
   storage (snd (getUserInfo example_host userInfoManager True (state_with stored_A 500))) =
     [''user_info_cache'' \<mapsto> stored_A_500]"
  using force_refresh_bypass [of example_host userInfoManager "state_with stored_A 500" Map.empty
      "JObj [(''userInfo'', profile_A)]" profile_A stored_A_500]
  by (simp add: example_defs userInfoManager_eq)

subsection \<open>C6: a corrupted record\<close>

text \<open>
  Claim C6. When the stored string is one that \<open>JSON.parse\<close> rejects,
  \<open>getCachedUserInfo\<close> returns \<open>null\<close> without throwing, as it does when no record is
  stored, and leaves the storage alone; \<open>getUserInfo\<close> then invokes the fetch and returns
  what it returns when no record is stored.
\<close>

theorem corrupted_record_is_absent:
  assumes "storage s (cacheKey this) = Some str" and "JSON_parse h str = Inl e"
  shows "fst (getCachedUserInfo h this s) = Inr JNull \<and>
         fst (getCachedUserInfo h this (s\<lparr>storage := (storage s)(cacheKey this := None)\<rparr>)) =
           Inr JNull \<and>
         storage (snd (getCachedUserInfo h this s)) = storage s \<and>
         fetch_calls (snd (getUserInfo h this False s)) = Suc (fetch_calls s) \<and>
         fst (getUserInfo h this False s) =
           fst (getUserInfo h this False (s\<lparr>storage := (storage s)(cacheKey this := None)\<rparr>))"
proof -
  let ?absent = "s\<lparr>storage := (storage s)(cacheKey this := None)\<rparr>"
  have corrupt: "fst (getCachedUserInfo h this s) = Inr JNull"
    and kept: "storage (snd (getCachedUserInfo h this s)) = storage s"
    and calls: "fetch_calls (snd (getCachedUserInfo h this s)) = fetch_calls s"
    using assms
    by (auto simp add: getCachedUserInfo_def js_defs split: option.splits)
  have absent: "fst (getCachedUserInfo h this ?absent) = Inr JNull"
    by (auto simp add: getCachedUserInfo_def js_defs split: option.splits)
  have "fst (getUserInfo h this False s) = fst (getUserInfo h this False ?absent)"
    using fetchUserInfo_value [of h this "snd (getCachedUserInfo h this s)"
        "snd (getCachedUserInfo h this ?absent)"]
    by (simp add: getUserInfo_unforced [OF corrupt] getUserInfo_unforced [OF absent])
  moreover have "fetch_calls (snd (getUserInfo h this False s)) = Suc (fetch_calls s)"
    by (simp add: getUserInfo_unforced [OF corrupt] fetchUserInfo_calls calls)
  ultimately show ?thesis using corrupt absent kept by simp
qed

theorem corrupted_record_is_absent_witness:
  "JSON_parse example_host ''not json'' = Inl SyntaxError \<and>
   fst (getCachedUserInfo example_host userInfoManager (state_with ''not json'' 0)) = Inr JNull \<and>
   storage (snd (getCachedUserInfo example_host userInfoManager (state_with ''not json'' 0))) =
     [''user_info_cache'' \<mapsto> ''not json''] \<and>
   fetch_calls (snd (getUserInfo example_host userInfoManager False (state_with ''not json'' 0))) = 1"
  using corrupted_record_is_absent [of "state_with ''not json'' 0" userInfoManager
      "''not json''" example_host SyntaxError]
  by (simp add: example_defs userInfoManager_eq)

subsection \<open>C7: the transitions of the stored record\<close>

text \<open>
  Against claim C7 as stated: a failed storage read does not make the record absent.
  When \<open>getStorageSync\<close> throws, and when \<open>JSON.parse\<close> rejects the stored string, the
  \<open>catch\<close> block of line 69 logs and returns \<open>null\<close>; the stored string stays.
\<close>

theorem failed_read_keeps_record_counterexample:
  "getStorageSync_throws (example_host\<lparr>getStorageSync_throws := Some auth_deny\<rparr>) = Some auth_deny \<and>
   getCachedUserInfo (example_host\<lparr>getStorageSync_throws := Some auth_deny\<rparr>) userInfoManager
     (state_with stored_A 0)
     = (Inr JNull, (state_with stored_A 0)\<lparr>console := [(ConsoleError, ReadFailed, [auth_deny])]\<rparr>) \<and>
   storage ((state_with stored_A 0)\<lparr>console := [(ConsoleError, ReadFailed, [auth_deny])]\<rparr>)
     ''user_info_cache'' = Some stored_A \<and>
   JSON_parse example_host ''not json'' = Inl SyntaxError \<and>
   getCachedUserInfo example_host userInfoManager (state_with ''not json'' 0)
     = (Inr JNull, (state_with ''not json'' 0)\<lparr>console := [(ConsoleError, ReadFailed, [SyntaxError])]\<rparr>) \<and>
   storage ((state_with ''not json'' 0)\<lparr>console := [(ConsoleError, ReadFailed, [SyntaxError])]\<rparr>)
     ''user_info_cache'' = Some ''not json''"
  by (simp add: getCachedUserInfo_def js_defs example_defs userInfoManager_eq)

text \<open>
  Claim C7, amended. The record becomes absent only through \<open>removeStorageSync\<close>: in
  \<open>clearCachedUserInfo\<close>, and in a cache read that detects an expired record, in both
  when the removal does not throw. A cache read whose \<open>getStorageSync\<close> or \<open>JSON.parse\<close>
  throws leaves the storage exactly as it was. \<open>setCachedUserInfo\<close> stores the serialized
  record when \<open>JSON.stringify\<close> and \<open>setStorageSync\<close> do not throw, and changes nothing
  otherwise; and a record absent before \<open>getUserInfo\<close> is present after it only if the
  fetch resolved and \<open>setStorageSync\<close> did not throw.
\<close>

theorem record_transitions:
  "storage (snd (getCachedUserInfo h this s)) =
     (if detects_expiry h this s \<and> removeStorageSync_throws h = None
      then (storage s)(cacheKey this := None) else storage s) \<and>
   storage (snd (getCachedUserInfo (h\<lparr>getStorageSync_throws := Some e\<rparr>) this s)) = storage s \<and>
   storage (snd (getCachedUserInfo (h\<lparr>JSON_parse := \<lambda>t. Inl e\<rparr>) this s)) = storage s \<and>
   storage (snd (clearCachedUserInfo h this s)) =
     (if removeStorageSync_throws h = None
      then (storage s)(cacheKey this := None) else storage s) \<and>
   storage (snd (setCachedUserInfo h this P s)) =
     (case JSON_stringify h (JObj [(''data'', P), (''timestamp'', JNum (Num (clock s)))]) of
        Inl e \<Rightarrow> storage s
      | Inr str \<Rightarrow>
          if setStorageSync_throws h = None
          then (storage s)(cacheKey this \<mapsto> str) else storage s) \<and>
   (storage s (cacheKey this) = None \<and>
    storage (snd (getUserInfo h this forceRefresh s)) (cacheKey this) \<noteq> None \<longrightarrow>
      setStorageSync_throws h = None \<and> (\<exists>res. getUserProfile_outcome h = Inr res))"
proof -
  have read: "storage (snd (getCachedUserInfo h this s)) =
     (if detects_expiry h this s \<and> removeStorageSync_throws h = None
      then (storage s)(cacheKey this := None) else storage s)"
    by (rule getCachedUserInfo_storage_eq)
  have failed: "storage (snd (getCachedUserInfo (h\<lparr>getStorageSync_throws := Some e\<rparr>) this s)) =
      storage s"
    by (simp add: getCachedUserInfo_read_throws)
  have corrupt: "storage (snd (getCachedUserInfo (h\<lparr>JSON_parse := \<lambda>t. Inl e\<rparr>) this s)) =
      storage s"
    by (simp add: getCachedUserInfo_storage_eq detects_expiry_def split: option.splits)
  have evict: "storage (snd (clearCachedUserInfo h this s)) =
     (if removeStorageSync_throws h = None
      then (storage s)(cacheKey this := None) else storage s)"
    by (simp add: clearCachedUserInfo_run split: option.splits)
  have stored: "storage (snd (setCachedUserInfo h this P s)) =
     (case JSON_stringify h (JObj [(''data'', P), (''timestamp'', JNum (Num (clock s)))]) of
        Inl e \<Rightarrow> storage s
      | Inr str \<Rightarrow>
          if setStorageSync_throws h = None
          then (storage s)(cacheKey this \<mapsto> str) else storage s)"
    by (auto simp add: setCachedUserInfo_run split: sum.splits option.splits)
  have appear: "setStorageSync_throws h = None \<and> (\<exists>res. getUserProfile_outcome h = Inr res)"
    if absent: "storage s (cacheKey this) = None"
      and present: "storage (snd (getUserInfo h this forceRefresh s)) (cacheKey this) \<noteq> None"
  proof -
    obtain v where v: "fst (getCachedUserInfo h this s) = Inr v"
      using getCachedUserInfo_total by blast
    have kept: "storage (snd (getCachedUserInfo h this s)) (cacheKey this) = None"
      using absent by (simp add: getCachedUserInfo_storage_eq)
    show ?thesis
    proof (cases "forceRefresh \<or> \<not> truthy v")
      case True
      define pre where "pre = (if forceRefresh then s else snd (getCachedUserInfo h this s))"
      have run: "getUserInfo h this forceRefresh s = fetchUserInfo h this pre"
        using True
        by (cases forceRefresh)
          (simp_all add: pre_def getUserInfo_forced getUserInfo_unforced [OF v])
      have "storage pre (cacheKey this) = None"
        using absent kept by (simp add: pre_def)
      with present run fetchUserInfo_storage [of h this pre] show ?thesis by auto
    next
      case False
      with present kept show ?thesis
        by (simp add: getUserInfo_unforced [OF v])
    qed
  qed
  from read failed corrupt evict stored appear show ?thesis by blast
qed

theorem record_transitions_witness:
  "storage (snd (getCachedUserInfo (example_host\<lparr>getStorageSync_throws := Some auth_deny\<rparr>)
     userInfoManager (state_with stored_A 86400000))) = [''user_info_cache'' \<mapsto> stored_A] \<and>
   storage (snd (getCachedUserInfo example_host userInfoManager (state_with stored_A 86400000))) =
     Map.empty \<and>
   storage (snd (clearCachedUserInfo example_host userInfoManager (state_with stored_A 0))) =
     Map.empty \<and>
   storage fresh_state ''user_info_cache'' = None \<and>
   storage (snd (getUserInfo example_host userInfoManager False fresh_state)) ''user_info_cache'' =
     Some stored_A \<and>
   setStorageSync_throws example_host = None \<and>
   getUserProfile_outcome example_host = Inr (JObj [(''userInfo'', profile_A)])"
proof -
  have "storage (snd (getUserInfo example_host userInfoManager False fresh_state)) ''user_info_cache'' =
     Some stored_A"
    by (simp add: getUserInfo_def fetchUserInfo_def setCachedUserInfo_def getCachedUserInfo_def
        js_defs userInfoManager_eq example_defs)
  then show ?thesis
    using record_transitions [of example_host userInfoManager "state_with stored_A 86400000"
        auth_deny]
      record_transitions [of example_host userInfoManager "state_with stored_A 0"]
      record_transitions [of example_host userInfoManager fresh_state _ _ False]
    by (simp add: example_defs userInfoManager_eq detects_expiry_def)
qed

subsection \<open>C8: a cache hit changes nothing\<close>

text \<open>
  Claim C8. When \<open>forceRefresh\<close> is false and the cache read yields a value (one that
  passes the test \<open>if (cachedInfo)\<close> of line 27), \<open>getUserInfo\<close> returns that value, the
  fetch is not invoked and the storage is unchanged.
\<close>

theorem cache_hit_frame:
  assumes "fst (getCachedUserInfo h this s) = Inr v" and "truthy v"
  shows "fst (getUserInfo h this False s) = Inr v \<and>
         fetch_calls (snd (getUserInfo h this False s)) = fetch_calls s \<and>
         storage (snd (getUserInfo h this False s)) = storage s"
  using assms getCachedUserInfo_hit [OF assms]
  by (simp add: getUserInfo_unforced [OF assms(1)])

theorem cache_hit_frame_witness:
  "fst (getCachedUserInfo example_host userInfoManager (state_with stored_A 500)) = Inr profile_A \<and>
   truthy profile_A \<and>
   fst (getUserInfo example_host userInfoManager False (state_with stored_A 500)) = Inr profile_A \<and>
   fetch_calls (snd (getUserInfo example_host userInfoManager False (state_with stored_A 500))) = 0 \<and>
   storage (snd (getUserInfo example_host userInfoManager False (state_with stored_A 500))) =
     [''user_info_cache'' \<mapsto> stored_A]"
proof -
  have cached: "fst (getCachedUserInfo example_host userInfoManager (state_with stored_A 500)) =
      Inr profile_A"
    by (simp add: getCachedUserInfo_def js_defs userInfoManager_eq example_defs)
  have t: "truthy profile_A" by (simp add: profile_A_def)
  from cache_hit_frame [OF cached t] cached t show ?thesis
    by (simp add: state_with_def fresh_state_def)
qed

subsection \<open>C9: the singleton\<close>

text \<open>
  Claim C9. In every class state reachable after the module is loaded, \<open>new
  UserInfoManager()\<close> evaluates to the object created at load time, which is the exported
  one; its cache key is \<open>user_info_cache\<close> and its expiry 86400000 ms.
\<close>

theorem singleton_instance:
  "reachable cs \<Longrightarrow>
     fst (new_UserInfoManager cs) = fst module_load \<and>
     objects (snd (new_UserInfoManager cs)) (fst (new_UserInfoManager cs)) = Some userInfoManager \<and>
     cacheKey userInfoManager = ''user_info_cache'' \<and>
     CACHE_EXPIRE userInfoManager = 86400000"
  using reachable_instance [of cs]
  by (simp add: new_keeps_instance userInfoManager_eq)

theorem singleton_instance_witness:
  "reachable (snd (new_UserInfoManager (snd module_load))) \<and>
   fst (new_UserInfoManager (snd (new_UserInfoManager (snd module_load)))) = fst module_load \<and>
   objects (snd (new_UserInfoManager (snd (new_UserInfoManager (snd module_load)))))
     (fst (new_UserInfoManager (snd (new_UserInfoManager (snd module_load))))) = Some userInfoManager \<and>
   allocated (snd (new_UserInfoManager (snd (new_UserInfoManager (snd module_load))))) = 3"
proof -
  have r: "reachable (snd (new_UserInfoManager (snd module_load)))"
    by (rule reachable.new, rule reachable.loaded)
  have "allocated (snd (new_UserInfoManager (snd (new_UserInfoManager (snd module_load))))) = 3"
    by (simp add: module_load_eq new_keeps_instance)
  with r singleton_instance [OF r] show ?thesis by blast
qed

subsection \<open>C10: a falsy profile is a cache miss\<close>

text \<open>
  Claim C10. When the stored record has not expired but its \<open>data\<close> is falsy (\<open>null\<close>,
  \<open>0\<close>, the empty string, \<open>false\<close>, or \<open>undefined\<close>), the cache read returns that value,
  the test of line 27 fails, and \<open>getUserInfo(false)\<close> goes on exactly as the fetch does:
  the fetch is invoked although a valid record is stored.
\<close>

theorem falsy_profile_is_cache_miss:
  assumes "getStorageSync_throws h = None"
    and "storage s (cacheKey userInfoManager) = Some str"
    and "holds_record h str P T"
    and "clock s - T < 86400000"
    and "\<not> truthy P"
  shows "fst (getCachedUserInfo h userInfoManager s) = Inr P \<and>
         getUserInfo h userInfoManager False s = fetchUserInfo h userInfoManager s \<and>
         fetch_calls (snd (getUserInfo h userInfoManager False s)) = Suc (fetch_calls s)"
proof -
  have "clock s - T < CACHE_EXPIRE userInfoManager"
    using assms(4) by (simp add: userInfoManager_eq)
  then have read: "getCachedUserInfo h userInfoManager s = (Inr P, s)"
    using getCachedUserInfo_record [OF assms(1,2,3)] by simp
  then have "fst (getCachedUserInfo h userInfoManager s) = Inr P" by simp
  from getUserInfo_unforced [OF this] read assms(5) show ?thesis
    by (simp add: fetchUserInfo_calls)
qed

theorem falsy_profile_is_cache_miss_witness:
  \<open>fetch_calls (snd (getUserInfo example_host userInfoManager False
      (state_with ''{"data":null,"timestamp":0}'' 500))) = 1 \<and>
   fetch_calls (snd (getUserInfo example_host userInfoManager False
      (state_with ''{"data":0,"timestamp":0}'' 500))) = 1 \<and>
   fetch_calls (snd (getUserInfo example_host userInfoManager False
      (state_with ''{"data":"","timestamp":0}'' 500))) = 1 \<and>
   fetch_calls (snd (getUserInfo example_host userInfoManager False
      (state_with ''{"data":false,"timestamp":0}'' 500))) = 1 \<and>
   fetch_calls (snd (getUserInfo example_host userInfoManager False
      (state_with ''{"timestamp":0}'' 500))) = 1\<close>
proof -
  have reads: "getStorageSync_throws example_host = None"
    by (simp add: example_host_def)
  have miss: "fetch_calls (snd (getUserInfo example_host userInfoManager False
      (state_with str 500))) = 1"
    if "holds_record example_host str P 0" and "\<not> truthy P" for str P
  proof -
    have stored: "storage (state_with str 500) (cacheKey userInfoManager) = Some str"
      and fresh: "clock (state_with str 500) - 0 < 86400000"
      and calls: "fetch_calls (state_with str 500) = 0"
      by (simp_all add: state_with_def fresh_state_def userInfoManager_eq)
    note falsy_profile_is_cache_miss [OF reads stored that(1) fresh that(2)]
    then have "fetch_calls (snd (getUserInfo example_host userInfoManager False
        (state_with str 500))) = Suc (fetch_calls (state_with str 500))"
      by (rule conjunct2 [THEN conjunct2])
    with calls show ?thesis by simp
  qed
  have \<open>holds_record example_host ''{"data":null,"timestamp":0}'' JNull 0\<close>
    and \<open>holds_record example_host ''{"data":0,"timestamp":0}'' (JNum (Num 0)) 0\<close>
    and \<open>holds_record example_host ''{"data":"","timestamp":0}'' (JStr []) 0\<close>
    and \<open>holds_record example_host ''{"data":false,"timestamp":0}'' (JBool False) 0\<close>
    and \<open>holds_record example_host ''{"timestamp":0}'' JUndefined 0\<close>
    by (simp_all add: holds_record_def example_host_def documents_def stored_A_def stored_A_500_def)
  then show ?thesis
    by (simp add: miss)
qed

end
